theory Spec2Isabelle
  imports Main "HOL-Library.Word"
begin

section \<open>Data model\<close>

text \<open>
  The controller is firmware for a PIC24F (XC16 compiler). The C integer types are
  modelled as machine words of their width; every arithmetic expression is written at
  the width at which C evaluates it (after integer promotion or an explicit cast).
\<close>

type_synonym uint8_t = "8 word"
type_synonym uint16_t = "16 word"
type_synonym uint32_t = "32 word"

text \<open>
  A division or a remainder by zero is undefined behaviour in C (a math-error trap on this
  device). It is the only way an operation of the model can fail.
\<close>

datatype trap = DivideByZero

text \<open>\<^verbatim>\<open>PWMControl\<close> of PWM.h; the flags are bytes, tested against zero as C does.\<close>

record PWMControl =
  period :: uint8_t
  baseDutyCycle :: uint8_t
  blinkDutyCycle :: uint8_t
  currentDutyCycle :: uint8_t
  blinkEnabled :: uint8_t
  blinkState :: uint8_t
  adcValue :: uint16_t

text \<open>\<^verbatim>\<open>ButtonState\<close> of IOs.h.\<close>

record ButtonState =
  pressed :: uint8_t
  newState :: uint8_t
  prevState :: uint8_t

text \<open>
  \<^verbatim>\<open>state_t\<close> of stateMachine.h. A C enum is an integer, and
  \<^verbatim>\<open>handleStateTransition\<close> has a \<^verbatim>\<open>default\<close> branch for values that are
  none of the six enumerators, so the mode is kept as the integer it is in C.
\<close>

type_synonym state_t = "16 word"

abbreviation OFF_MODE :: state_t where "OFF_MODE \<equiv> 0"
abbreviation OFF_BLINK :: state_t where "OFF_BLINK \<equiv> 1"
abbreviation ON_MODE :: state_t where "ON_MODE \<equiv> 2"
abbreviation ON_BLINK :: state_t where "ON_BLINK \<equiv> 3"
abbreviation TRANSMIT_UART_ON :: state_t where "TRANSMIT_UART_ON \<equiv> 4"
abbreviation TRANSMIT_UART_BLINK :: state_t where "TRANSMIT_UART_BLINK \<equiv> 5"

record SystemState =
  currentState :: state_t

text \<open>
  The special function registers the code writes. Only the writes of the software are
  modelled: the counting of the timers, the conversion of the ADC and the shifting of the
  UART happen in hardware and in real time. \<open>U2TX\<close> is the sequence of bytes written to
  \<^verbatim>\<open>U2TXREG\<close> so far, oldest first; a C character constant \<^verbatim>\<open>'c'\<close> is the
  integer \<open>of_char CHR ''c''\<close>.
\<close>

record Hardware =
  LED :: bool
  PR1 :: uint16_t
  TMR1 :: uint16_t
  T1ON :: bool
  T1IF :: bool
  PR2 :: uint16_t
  TMR2 :: uint16_t
  T2ON :: bool
  T2IF :: bool
  PR3 :: uint16_t
  TMR3 :: uint16_t
  T3ON :: bool
  T3IF :: bool
  CNIF :: bool
  ADON :: bool
  SAMP :: bool
  U2TX :: "uint8_t list"

text \<open>
  All global variables of the program together with the registers. The array
  \<^verbatim>\<open>buttons[3]\<close> is indexed by \<open>0\<close>, \<open>1\<close> and \<open>2\<close> only (constant indices and a loop
  \<^verbatim>\<open>i < 3\<close>), so it is a total function of the index.
\<close>

record System =
  pwmControl :: PWMControl
  buttons :: "nat \<Rightarrow> ButtonState"
  systemState :: SystemState
  pwmCounter :: uint8_t
  buttonFlag :: uint8_t
  hw :: Hardware

section \<open>Timers (timeDelay.c)\<close>

definition startTimer1 :: "uint16_t \<Rightarrow> System \<Rightarrow> System" where
  "startTimer1 pr_val s = s\<lparr>hw := (hw s)\<lparr>PR1 := pr_val, T1ON := True\<rparr>\<rparr>"

definition stopTimer1 :: "System \<Rightarrow> System" where
  "stopTimer1 s = s\<lparr>hw := (hw s)\<lparr>TMR1 := 0, T1ON := False\<rparr>\<rparr>"

definition startTimer2 :: "uint16_t \<Rightarrow> System \<Rightarrow> System" where
  "startTimer2 time_ms s =
     s\<lparr>hw := (hw s)\<lparr>PR2 := ucast ((ucast time_ms :: uint32_t) * 500 div 128), T2ON := True\<rparr>\<rparr>"

definition stopTimer2 :: "System \<Rightarrow> System" where
  "stopTimer2 s = s\<lparr>hw := (hw s)\<lparr>TMR2 := 0, PR2 := 0, T2ON := False\<rparr>\<rparr>"

text \<open>
  \<^verbatim>\<open>delay_ms\<close> programs Timer3, idles until an interrupt wakes the CPU and switches
  Timer3 off again. The wait itself is real time; the register writes remain.
\<close>

definition delay_ms :: "uint16_t \<Rightarrow> System \<Rightarrow> System" where
  "delay_ms time_ms s =
     s\<lparr>hw := (hw s)\<lparr>PR3 := ucast ((ucast time_ms :: uint32_t) * 500 div 16),
                     TMR3 := 0, T3ON := False\<rparr>\<rparr>"

section \<open>Analog input (ADC.c)\<close>

text \<open>
  \<^verbatim>\<open>do_ADC\<close> switches the converter on, busy-waits for the \<^verbatim>\<open>DONE\<close> bit, reads
  \<^verbatim>\<open>ADC1BUF0\<close> and switches the converter off. The value found in \<^verbatim>\<open>ADC1BUF0\<close> is
  an input of the model (\<open>sample\<close>); the conversion is taken to complete.
\<close>

definition do_ADC :: "uint16_t \<Rightarrow> System \<Rightarrow> uint16_t \<times> System" where
  "do_ADC sample s = (sample, s\<lparr>hw := (hw s)\<lparr>ADON := False, SAMP := False\<rparr>\<rparr>)"

section \<open>Serial output (UART2.c)\<close>

text \<open>
  One write to \<^verbatim>\<open>U2TXREG\<close>, after \<^verbatim>\<open>WaitForTXReady\<close> (a busy-wait on the
  transmit buffer, taken to complete).
\<close>

definition U2TXREG_write :: "uint8_t \<Rightarrow> System \<Rightarrow> System" where
  "U2TXREG_write c s = s\<lparr>hw := (hw s)\<lparr>U2TX := U2TX (hw s) @ [c]\<rparr>\<rparr>"

text \<open>\<^verbatim>\<open>while (count--) { ... }\<close> on an \<^verbatim>\<open>unsigned int\<close>.\<close>

function XmitUART2 :: "uint8_t \<Rightarrow> uint16_t \<Rightarrow> System \<Rightarrow> System" where
  "XmitUART2 character count s =
     (if count \<noteq> 0 then XmitUART2 character (count - 1) (U2TXREG_write character s) else s)"
  by pat_completeness auto
termination
  by (relation "measure (\<lambda>(c, count, s). unat count)") (auto simp: unat_minus_one unat_gt_0)

declare XmitUART2.simps [simp del]

text \<open>
  \<^verbatim>\<open>Disp2String\<close>: every character of the string up to the terminating \<^verbatim>\<open>NUL\<close>.
\<close>

fun Disp2String :: "char list \<Rightarrow> System \<Rightarrow> System" where
  "Disp2String [] s = s"
| "Disp2String (c # str) s = Disp2String str (U2TXREG_write (of_char c) s)"

text \<open>
  \<^verbatim>\<open>DispNum\<close>, first loop: \<^verbatim>\<open>for (uint8_t i = 1; i < digits; i++) divisor *= 10;\<close>
  with \<^verbatim>\<open>divisor\<close> a 16-bit unsigned integer.
\<close>

function DispNum_divisor :: "uint8_t \<Rightarrow> uint8_t \<Rightarrow> uint16_t \<Rightarrow> uint16_t" where
  "DispNum_divisor i digits divisor =
     (if i < digits then DispNum_divisor (i + 1) digits (divisor * 10) else divisor)"
  by pat_completeness auto
termination
proof (relation "measure (\<lambda>(i, digits, divisor). unat digits - unat i)")
  show "wf (measure (\<lambda>(i, digits, divisor). unat digits - unat i))"
    by simp
next
  fix i digits :: uint8_t and divisor :: uint16_t
  assume lt: "i < digits"
  then have "unat i < unat digits"
    by (simp add: word_less_nat_alt)
  moreover have "unat digits < 2 ^ 8"
    using unsigned_less [of digits] by simp
  ultimately have "unat i + unat (1 :: uint8_t) < 2 ^ LENGTH(8)"
    by simp
  then have "unat (i + 1) = unat i + 1"
    by (simp add: unat_add_lem [THEN iffD1])
  with \<open>unat i < unat digits\<close> show "((i + 1, digits, divisor * 10), (i, digits, divisor))
      \<in> measure (\<lambda>(i, digits, divisor). unat digits - unat i)"
    by simp
qed

declare DispNum_divisor.simps [simp del]

text \<open>
  \<^verbatim>\<open>DispNum\<close>, second loop:
  \<^verbatim>\<open>do { U2TXREG = '0' + ((number / divisor) % 10); divisor /= 10; } while (divisor);\<close>
  The digit is computed at 16 bits; the transmit register takes its low byte.
\<close>

definition DispNum_digit :: "uint16_t \<Rightarrow> uint16_t \<Rightarrow> uint8_t" where
  "DispNum_digit number divisor = ucast (of_char CHR ''0'' + (number div divisor) mod 10)"

function DispNum_digits :: "uint16_t \<Rightarrow> uint16_t \<Rightarrow> System \<Rightarrow> trap + System" where
  "DispNum_digits number divisor s =
     (if divisor = 0 then Inl DivideByZero
      else
        let s' = U2TXREG_write (DispNum_digit number divisor) s;
            divisor' = divisor div 10
        in if divisor' \<noteq> 0 then DispNum_digits number divisor' s' else Inr s')"
  by pat_completeness auto
termination
proof (relation "measure (\<lambda>(number, divisor, s). unat divisor)")
  show "wf (measure (\<lambda>(number, divisor, s). unat divisor))"
    by simp
next
  fix number divisor :: uint16_t and s x :: System and xa :: uint16_t
  assume nz: "divisor \<noteq> 0" and xa: "xa = divisor div 10"
  have "0 < unat divisor"
    using nz by (simp add: unat_gt_0)
  then have "unat divisor div 10 < unat divisor"
    by simp
  then show "((number, xa, x), (number, divisor, s))
      \<in> measure (\<lambda>(number, divisor, s). unat divisor)"
    using xa by (simp add: unat_div)
qed

declare DispNum_digits.simps [simp del]

definition DispNum :: "uint16_t \<Rightarrow> uint8_t \<Rightarrow> System \<Rightarrow> trap + System" where
  "DispNum number digits s = DispNum_digits number (DispNum_divisor 1 digits 1) s"

section \<open>Brightness and blinking (PWM.c)\<close>

text \<open>
  The scaling expression of \<^verbatim>\<open>updateBrightness\<close>,
  \<^verbatim>\<open>(uint8_t)((uint32_t)pwmControl.adcValue * pwmControl.period / 1023)\<close>:
  product and quotient at 32 bits, the result cut to 8 bits.
\<close>

definition adc_to_duty :: "uint16_t \<Rightarrow> uint8_t \<Rightarrow> uint8_t" where
  "adc_to_duty adc per = ucast ((ucast adc :: uint32_t) * ucast per div 1023)"

definition updateBrightness :: "uint8_t \<Rightarrow> uint16_t \<Rightarrow> System \<Rightarrow> System" where
  "updateBrightness overrideDutyCycle sample s =
     (let s1 = startTimer1 (ucast (period (pwmControl s))) s;
          (v, s2) = do_ADC sample s1;
          p = (pwmControl s2)\<lparr>adcValue := v\<rparr>;
          p1 = (if overrideDutyCycle = 0
                then p\<lparr>baseDutyCycle := adc_to_duty (adcValue p) (period p)\<rparr>
                else p\<lparr>baseDutyCycle := overrideDutyCycle\<rparr>);
          p2 = (if blinkEnabled p1 = 0
                then p1\<lparr>currentDutyCycle := baseDutyCycle p1\<rparr>
                else
                  let p' = p1\<lparr>blinkDutyCycle := baseDutyCycle p1\<rparr>
                  in p'\<lparr>currentDutyCycle :=
                          (if blinkState p' \<noteq> 0 then blinkDutyCycle p' else 0)\<rparr>)
      in s2\<lparr>pwmControl := p2\<rparr>)"

definition blink :: "System \<Rightarrow> System" where
  "blink s = startTimer2 500 (s\<lparr>pwmControl := (pwmControl s)\<lparr>blinkEnabled := 1\<rparr>\<rparr>)"

definition stopBlink :: "System \<Rightarrow> System" where
  "stopBlink s = stopTimer2 (s\<lparr>pwmControl := (pwmControl s)\<lparr>blinkEnabled := 0\<rparr>\<rparr>)"

text \<open>
  \<^verbatim>\<open>uint8_t dutyPercent = (uint32_t)pwmControl.currentDutyCycle * 100 / pwmControl.period;\<close>
  followed by the four transmissions. \<^verbatim>\<open>dutyPercent\<close> is widened to the 16-bit
  parameter of \<^verbatim>\<open>DispNum\<close>.
\<close>

definition transmitVoltageADC :: "System \<Rightarrow> trap + System" where
  "transmitVoltageADC s =
     (let p = pwmControl s in
      if period p = 0 then Inl DivideByZero
      else
        let dutyPercent =
              (ucast ((ucast (currentDutyCycle p) :: uint32_t) * 100 div ucast (period p))
                 :: uint8_t)
        in case DispNum (ucast dutyPercent) 3 s of
             Inl e \<Rightarrow> Inl e
           | Inr s1 \<Rightarrow>
               (case DispNum (adcValue (pwmControl s1)) 4 (XmitUART2 (of_char CHR '' '') 1 s1) of
                  Inl e \<Rightarrow> Inl e
                | Inr s2 \<Rightarrow> Inr (XmitUART2 (of_char CHR 0x0A) 1 s2)))"

section \<open>Buttons (IOs.c)\<close>

text \<open>
  The body of the loop of \<^verbatim>\<open>IOcheck\<close> for one button; \<open>level\<close> is the port bit read
  for it (\<^verbatim>\<open>PB1\<close>, \<^verbatim>\<open>PB2\<close> or \<^verbatim>\<open>PB3\<close>: a one-bit field, so 0 or 1;
  \<open>True\<close> is electrical high, the button released).
\<close>

definition IOcheck_button :: "bool \<Rightarrow> ButtonState \<Rightarrow> ButtonState" where
  "IOcheck_button level b =
     (let b1 = b\<lparr>newState := (if level then 1 else 0)\<rparr>
      in if newState b1 \<noteq> prevState b1
         then
           let b2 = (if prevState b1 = 0 \<and> newState b1 = 1 then b1\<lparr>pressed := 1\<rparr> else b1)
           in b2\<lparr>prevState := newState b2\<rparr>
         else b1)"

text \<open>
  \<^verbatim>\<open>for (int i = 0; i < 3; i++)\<close>; \<open>levels i\<close> is the port bit of button \<open>i\<close> at
  this call. The function returns 0.
\<close>

fun IOcheck_loop :: "nat \<Rightarrow> nat \<Rightarrow> (nat \<Rightarrow> bool) \<Rightarrow> System \<Rightarrow> System" where
  "IOcheck_loop 0 i levels s = s"
| "IOcheck_loop (Suc n) i levels s =
     IOcheck_loop n (i + 1) levels
       (s\<lparr>buttons := (buttons s)(i := IOcheck_button (levels i) (buttons s i))\<rparr>)"

definition IOcheck :: "(nat \<Rightarrow> bool) \<Rightarrow> System \<Rightarrow> uint8_t \<times> System" where
  "IOcheck levels s = (0, IOcheck_loop 3 0 levels s)"

section \<open>Control loop and interrupt handlers (main.c)\<close>

definition LED_assign :: "bool \<Rightarrow> System \<Rightarrow> System" where
  "LED_assign v s = s\<lparr>hw := (hw s)\<lparr>LED := v\<rparr>\<rparr>"

definition currentState_assign :: "state_t \<Rightarrow> System \<Rightarrow> System" where
  "currentState_assign m s = s\<lparr>systemState := (systemState s)\<lparr>currentState := m\<rparr>\<rparr>"

text \<open>
  \<^verbatim>\<open>handleStateTransition\<close>, one branch per \<^verbatim>\<open>case\<close> in the order of the source.
  \<open>sample\<close> is the ADC reading of this pass (each branch converts at most once).
\<close>

definition handleStateTransition :: "uint16_t \<Rightarrow> System \<Rightarrow> trap + System" where
  "handleStateTransition sample s =
     (if currentState (systemState s) = OFF_MODE then
        let s1 = stopTimer2 (stopTimer1 (stopBlink (LED_assign False (delay_ms 20 s))))
        in Inr (if pressed (buttons s1 0) \<noteq> 0 then currentState_assign ON_MODE s1
                else if pressed (buttons s1 1) \<noteq> 0 then currentState_assign OFF_BLINK s1
                else s1)
      else if currentState (systemState s) = OFF_BLINK then
        let s0 = blink s;
            s1 = updateBrightness (period (pwmControl s0)) sample s0
        in Inr (if pressed (buttons s1 1) \<noteq> 0
                then stopBlink (currentState_assign OFF_MODE s1)
                else s1)
      else if currentState (systemState s) = ON_MODE then
        let s1 = updateBrightness 0 sample s
        in Inr (if pressed (buttons s1 0) \<noteq> 0 then currentState_assign OFF_MODE s1
                else if pressed (buttons s1 1) \<noteq> 0 then currentState_assign ON_BLINK s1
                else if pressed (buttons s1 2) \<noteq> 0
                then currentState_assign TRANSMIT_UART_ON s1
                else s1)
      else if currentState (systemState s) = ON_BLINK then
        let s1 = updateBrightness 0 sample (blink s)
        in Inr (if pressed (buttons s1 1) \<noteq> 0
                then stopBlink (currentState_assign ON_MODE s1)
                else if pressed (buttons s1 2) \<noteq> 0
                then currentState_assign TRANSMIT_UART_BLINK s1
                else s1)
      else if currentState (systemState s) = TRANSMIT_UART_ON then
        (case transmitVoltageADC (updateBrightness 0 sample s) of
           Inl e \<Rightarrow> Inl e
         | Inr s1 \<Rightarrow>
             Inr (if pressed (buttons s1 0) \<noteq> 0 then currentState_assign OFF_MODE s1
                  else if pressed (buttons s1 1) \<noteq> 0
                  then currentState_assign TRANSMIT_UART_BLINK s1
                  else if pressed (buttons s1 2) \<noteq> 0 then currentState_assign ON_MODE s1
                  else s1))
      else if currentState (systemState s) = TRANSMIT_UART_BLINK then
        (case transmitVoltageADC (updateBrightness 0 sample (blink s)) of
           Inl e \<Rightarrow> Inl e
         | Inr s1 \<Rightarrow>
             Inr (if pressed (buttons s1 1) \<noteq> 0
                  then stopBlink (currentState_assign TRANSMIT_UART_ON s1)
                  else if pressed (buttons s1 2) \<noteq> 0
                  then currentState_assign ON_BLINK s1
                  else s1))
      else Inr (currentState_assign OFF_MODE s))"

text \<open>
  \<^verbatim>\<open>_T1Interrupt\<close>. In \<^verbatim>\<open>(pwmCounter + 1) % pwmControl.period\<close> both operands are
  promoted to \<^verbatim>\<open>int\<close>, so the sum does not wrap at 8 bits; the remainder is stored
  back into the 8-bit counter.
\<close>

definition T1Interrupt :: "System \<Rightarrow> trap + System" where
  "T1Interrupt s =
     (if period (pwmControl s) = 0 then Inl DivideByZero
      else
        let s1 = s\<lparr>pwmCounter :=
                     ucast (((ucast (pwmCounter s) :: uint16_t) + 1)
                              mod ucast (period (pwmControl s)))\<rparr>;
            p = pwmControl s1;
            s2 = s1\<lparr>pwmControl :=
                      p\<lparr>currentDutyCycle :=
                          (if blinkEnabled p \<noteq> 0 then currentDutyCycle p
                           else baseDutyCycle p)\<rparr>\<rparr>;
            s3 = LED_assign (pwmCounter s2 < currentDutyCycle (pwmControl s2)) s2
        in Inr (s3\<lparr>hw := (hw s3)\<lparr>T1IF := False\<rparr>\<rparr>))"

definition T2Interrupt :: "System \<Rightarrow> System" where
  "T2Interrupt s =
     (let s1 =
            (if blinkEnabled (pwmControl s) \<noteq> 0
             then
               let p = (pwmControl s)\<lparr>blinkState :=
                          (if blinkState (pwmControl s) = 0 then 1 else 0)\<rparr>
               in s\<lparr>pwmControl :=
                      p\<lparr>currentDutyCycle :=
                          (if blinkState p \<noteq> 0 then blinkDutyCycle p else 0)\<rparr>\<rparr>
             else s)
      in s1\<lparr>hw := (hw s1)\<lparr>T2IF := False\<rparr>\<rparr>)"

definition T3Interrupt :: "System \<Rightarrow> System" where
  "T3Interrupt s = s\<lparr>hw := (hw s)\<lparr>T3IF := False\<rparr>\<rparr>"

definition CNInterrupt :: "System \<Rightarrow> System" where
  "CNInterrupt s = (s\<lparr>buttonFlag := 1\<rparr>)\<lparr>hw := (hw s)\<lparr>CNIF := False\<rparr>\<rparr>"

text \<open>
  The loop \<^verbatim>\<open>for (int i = 0; i < 3; i++) buttons[i].pressed = 0;\<close> at the end of
  each iteration of \<^verbatim>\<open>main\<close>.
\<close>

fun main_clear_loop :: "nat \<Rightarrow> nat \<Rightarrow> System \<Rightarrow> System" where
  "main_clear_loop 0 i s = s"
| "main_clear_loop (Suc n) i s =
     main_clear_loop n (i + 1) (s\<lparr>buttons := (buttons s)(i := (buttons s i)\<lparr>pressed := 0\<rparr>)\<rparr>)"

text \<open>
  One iteration of \<^verbatim>\<open>while (1)\<close> in \<^verbatim>\<open>main\<close>, run without preemption: \<open>levels\<close> are
  the button levels \<^verbatim>\<open>IOcheck\<close> reads if it is called, \<open>sample\<close> is the ADC reading.
\<close>

definition main_iteration :: "(nat \<Rightarrow> bool) \<Rightarrow> uint16_t \<Rightarrow> System \<Rightarrow> trap + System" where
  "main_iteration levels sample s =
     (let s1 = (if buttonFlag s \<noteq> 0
                then let (r, s') = IOcheck levels s in s'\<lparr>buttonFlag := r\<rparr>
                else s)
      in case handleStateTransition sample s1 of
           Inl e \<Rightarrow> Inl e
         | Inr s2 \<Rightarrow> Inr (main_clear_loop 3 0 s2))"

subsection \<open>The state at the start of the main loop\<close>

text \<open>
  The globals with their initialisers (\<^verbatim>\<open>pwmControl\<close> in PWM.c, \<^verbatim>\<open>buttons\<close> in
  IOs.c, \<^verbatim>\<open>systemState\<close> in stateMachine.h, the two counters in main.c; a member
  without initialiser is zero) and the registers at their reset values.
\<close>

definition power_on :: System where
  "power_on =
     \<lparr>pwmControl = \<lparr>period = 50, baseDutyCycle = 0, blinkDutyCycle = 0, currentDutyCycle = 0,
                     blinkEnabled = 0, blinkState = 0, adcValue = 0\<rparr>,
      buttons = (\<lambda>i. \<lparr>pressed = 0, newState = 1, prevState = 1\<rparr>),
      systemState = \<lparr>currentState = OFF_MODE\<rparr>,
      pwmCounter = 0,
      buttonFlag = 0,
      hw = \<lparr>LED = False,
            PR1 = 0xFFFF, TMR1 = 0, T1ON = False, T1IF = False,
            PR2 = 0xFFFF, TMR2 = 0, T2ON = False, T2IF = False,
            PR3 = 0xFFFF, TMR3 = 0, T3ON = False, T3IF = False,
            CNIF = False, ADON = False, SAMP = False, U2TX = []\<rparr>\<rparr>"

text \<open>
  \<^verbatim>\<open>init\<close>, as far as it touches the modelled registers: \<^verbatim>\<open>timerInit\<close> and
  \<^verbatim>\<open>IOinit\<close> clear the interrupt flags and the LED, and the terminal is cleared with
  \<^verbatim>\<open>Disp2String("\033[2J\033[H")\<close>.
\<close>

definition init :: "System \<Rightarrow> System" where
  "init s =
     Disp2String [CHR 0x1B, CHR ''['', CHR ''2'', CHR ''J'', CHR 0x1B, CHR ''['', CHR ''H'']
       (s\<lparr>hw := (hw s)\<lparr>LED := False, T1IF := False, T2IF := False, T3IF := False,
                       CNIF := False\<rparr>\<rparr>)"

definition boot :: System where
  "boot = init power_on"

subsection \<open>Reachable states\<close>

text \<open>
  The states the program can be in at a point where one of its operations starts: the
  main loop runs its operations in sequence and an interrupt handler can run between any
  two of them. Every operation is a step on its own, with any input, so the set is at
  least as large as the set of states of the real interleavings.
\<close>

inductive reachable :: "System \<Rightarrow> bool" where
  r_boot: "reachable boot"
| r_IOcheck: "reachable s \<Longrightarrow> reachable ((snd (IOcheck levels s))\<lparr>buttonFlag := fst (IOcheck levels s)\<rparr>)"
| r_handle: "reachable s \<Longrightarrow> handleStateTransition sample s = Inr s' \<Longrightarrow> reachable s'"
| r_clear: "reachable s \<Longrightarrow> reachable (main_clear_loop 3 0 s)"
| r_update: "reachable s \<Longrightarrow> reachable (updateBrightness ov sample s)"
| r_blink: "reachable s \<Longrightarrow> reachable (blink s)"
| r_stopBlink: "reachable s \<Longrightarrow> reachable (stopBlink s)"
| r_transmit: "reachable s \<Longrightarrow> transmitVoltageADC s = Inr s' \<Longrightarrow> reachable s'"
| r_delay: "reachable s \<Longrightarrow> reachable (delay_ms t s)"
| r_LED: "reachable s \<Longrightarrow> reachable (LED_assign v s)"
| r_stopTimer1: "reachable s \<Longrightarrow> reachable (stopTimer1 s)"
| r_stopTimer2: "reachable s \<Longrightarrow> reachable (stopTimer2 s)"
| r_T1: "reachable s \<Longrightarrow> T1Interrupt s = Inr s' \<Longrightarrow> reachable s'"
| r_T2: "reachable s \<Longrightarrow> reachable (T2Interrupt s)"
| r_T3: "reachable s \<Longrightarrow> reachable (T3Interrupt s)"
| r_CN: "reachable s \<Longrightarrow> reachable (CNInterrupt s)"


section \<open>Notions of the specification\<close>

text \<open>
  The transition table of section 4.5 of the specification, row by row, with the
  priority PB1, PB2, PB3 and the reset of an undefined mode. It is written from the
  table, not from the code, and compared with \<^const>\<open>handleStateTransition\<close> below.
\<close>

definition spec_next_mode :: "state_t \<Rightarrow> bool \<Rightarrow> bool \<Rightarrow> bool \<Rightarrow> state_t" where
  "spec_next_mode m pb1 pb2 pb3 =
     (if m = OFF_MODE then
        (if pb1 then ON_MODE else if pb2 then OFF_BLINK else OFF_MODE)
      else if m = OFF_BLINK then
        (if pb2 then OFF_MODE else OFF_BLINK)
      else if m = ON_MODE then
        (if pb1 then OFF_MODE else if pb2 then ON_BLINK
         else if pb3 then TRANSMIT_UART_ON else ON_MODE)
      else if m = ON_BLINK then
        (if pb2 then ON_MODE else if pb3 then TRANSMIT_UART_BLINK else ON_BLINK)
      else if m = TRANSMIT_UART_ON then
        (if pb1 then OFF_MODE else if pb2 then TRANSMIT_UART_BLINK
         else if pb3 then ON_MODE else TRANSMIT_UART_ON)
      else if m = TRANSMIT_UART_BLINK then
        (if pb2 then TRANSMIT_UART_ON else if pb3 then ON_BLINK else TRANSMIT_UART_BLINK)
      else OFF_MODE)"



text \<open>
  A decimal field of fixed width (section 6: \<open>writeDecimal(value, width)\<close>), most
  significant digit first, padded with zeros, as ASCII bytes; and the telemetry line:
  a 3-digit field, a space, a 4-digit field, a newline.
\<close>

definition spec_dec_field :: "nat \<Rightarrow> nat \<Rightarrow> uint8_t list" where
  "spec_dec_field width n =
     map (\<lambda>k. of_char CHR ''0'' + of_nat (n div 10 ^ k mod 10)) (rev [0..<width])"

definition spec_telemetry_line :: "nat \<Rightarrow> nat \<Rightarrow> uint8_t list" where
  "spec_telemetry_line percent sample =
     spec_dec_field 3 percent @ [of_char CHR '' ''] @ spec_dec_field 4 sample
       @ [of_char CHR 0x0A]"

text \<open>
  The nine bytes one call of \<^const>\<open>transmitVoltageADC\<close> writes, in order: the three
  digits of \<^verbatim>\<open>DispNum(dutyPercent, 3)\<close>, the space, the four digits of
  \<^verbatim>\<open>DispNum(pwmControl.adcValue, 4)\<close> and the newline.
\<close>

definition transmitVoltageADC_bytes :: "PWMControl \<Rightarrow> uint8_t list" where
  "transmitVoltageADC_bytes p =
     (let dutyPercent =
            (ucast ((ucast (currentDutyCycle p) :: uint32_t) * 100 div ucast (period p))
               :: uint8_t)
      in [DispNum_digit (ucast dutyPercent) 100, DispNum_digit (ucast dutyPercent) 10,
          DispNum_digit (ucast dutyPercent) 1, of_char CHR '' '',
          DispNum_digit (adcValue p) 1000, DispNum_digit (adcValue p) 100,
          DispNum_digit (adcValue p) 10, DispNum_digit (adcValue p) 1, of_char CHR 0x0A])"

section \<open>Arithmetic of the scaling expression\<close>

lemma unat_ucast_16_32: "unat (ucast (w :: uint16_t) :: uint32_t) = unat w"
proof -
  have "unat w < 2 ^ LENGTH(16)" by (rule unsigned_less)
  then have "unat w < 2 ^ 32" by simp
  then show ?thesis by (simp add: unsigned_ucast_eq take_bit_nat_eq_self)
qed

lemma unat_ucast_8_32: "unat (ucast (w :: uint8_t) :: uint32_t) = unat w"
proof -
  have "unat w < 2 ^ LENGTH(8)" by (rule unsigned_less)
  then have "unat w < 2 ^ 32" by simp
  then show ?thesis by (simp add: unsigned_ucast_eq take_bit_nat_eq_self)
qed

lemma unat_ucast_32_8: "unat (w :: uint32_t) < 256 \<Longrightarrow> unat (ucast w :: uint8_t) = unat w"
  by (simp add: unsigned_ucast_eq take_bit_nat_eq_self)

lemma unat_adc_product:
  "unat ((ucast (adc :: uint16_t) :: uint32_t) * ucast (per :: uint8_t)) = unat adc * unat per"
proof -
  have "unat adc < 2 ^ LENGTH(16)" by (rule unsigned_less)
  then have a: "unat adc < 2 ^ 16" by simp
  have "unat per < 2 ^ LENGTH(8)" by (rule unsigned_less)
  then have b: "unat per < 2 ^ 8" by simp
  have "unat adc * unat per < 2 ^ 16 * 2 ^ 8"
    using a b by (rule mult_strict_mono) simp_all
  then have "unat (ucast adc :: uint32_t) * unat (ucast per :: uint32_t) < 2 ^ LENGTH(32)"
    by (simp add: unat_ucast_16_32 unat_ucast_8_32)
  then show ?thesis
    by (simp add: unat_mult_lem [THEN iffD1] unat_ucast_16_32 unat_ucast_8_32)
qed

lemma unat_adc_quotient:
  "unat ((ucast (adc :: uint16_t) :: uint32_t) * ucast (per :: uint8_t) div 1023)
     = unat adc * unat per div 1023"
  by (simp add: unat_div unat_adc_product)

lemma adc_to_duty_exact:
  assumes "unat adc \<le> 1023"
  shows "unat (adc_to_duty adc per) = unat adc * unat per div 1023"
    and "unat (adc_to_duty adc per) \<le> unat per"
proof -
  have "unat per < 2 ^ LENGTH(8)" by (rule unsigned_less)
  then have b: "unat per < 256" by simp
  have "unat adc * unat per \<le> 1023 * unat per"
    using assms by (rule mult_right_mono) simp
  then have "unat adc * unat per div 1023 \<le> 1023 * unat per div 1023"
    by (rule div_le_mono)
  then have q: "unat adc * unat per div 1023 \<le> unat per"
    by simp
  then have "unat adc * unat per div 1023 < 256" using b by simp
  then show "unat (adc_to_duty adc per) = unat adc * unat per div 1023"
    by (simp add: adc_to_duty_def unat_ucast_32_8 unat_adc_quotient)
  with q show "unat (adc_to_duty adc per) \<le> unat per" by simp
qed

section \<open>What each operation leaves unchanged\<close>

lemma startTimer1_globals [simp]:
  "pwmControl (startTimer1 v s) = pwmControl s"
  "buttons (startTimer1 v s) = buttons s"
  "systemState (startTimer1 v s) = systemState s"
  "pwmCounter (startTimer1 v s) = pwmCounter s"
  "buttonFlag (startTimer1 v s) = buttonFlag s"
  by (simp_all add: startTimer1_def)

lemma stopTimer1_globals [simp]:
  "pwmControl (stopTimer1 s) = pwmControl s"
  "buttons (stopTimer1 s) = buttons s"
  "systemState (stopTimer1 s) = systemState s"
  "pwmCounter (stopTimer1 s) = pwmCounter s"
  "buttonFlag (stopTimer1 s) = buttonFlag s"
  by (simp_all add: stopTimer1_def)

lemma startTimer2_globals [simp]:
  "pwmControl (startTimer2 v s) = pwmControl s"
  "buttons (startTimer2 v s) = buttons s"
  "systemState (startTimer2 v s) = systemState s"
  "pwmCounter (startTimer2 v s) = pwmCounter s"
  "buttonFlag (startTimer2 v s) = buttonFlag s"
  by (simp_all add: startTimer2_def)

lemma stopTimer2_globals [simp]:
  "pwmControl (stopTimer2 s) = pwmControl s"
  "buttons (stopTimer2 s) = buttons s"
  "systemState (stopTimer2 s) = systemState s"
  "pwmCounter (stopTimer2 s) = pwmCounter s"
  "buttonFlag (stopTimer2 s) = buttonFlag s"
  by (simp_all add: stopTimer2_def)

lemma delay_ms_globals [simp]:
  "pwmControl (delay_ms v s) = pwmControl s"
  "buttons (delay_ms v s) = buttons s"
  "systemState (delay_ms v s) = systemState s"
  "pwmCounter (delay_ms v s) = pwmCounter s"
  "buttonFlag (delay_ms v s) = buttonFlag s"
  by (simp_all add: delay_ms_def)

lemma LED_assign_globals [simp]:
  "pwmControl (LED_assign v s) = pwmControl s"
  "buttons (LED_assign v s) = buttons s"
  "systemState (LED_assign v s) = systemState s"
  "pwmCounter (LED_assign v s) = pwmCounter s"
  "buttonFlag (LED_assign v s) = buttonFlag s"
  by (simp_all add: LED_assign_def)

lemma U2TXREG_write_globals [simp]:
  "pwmControl (U2TXREG_write c s) = pwmControl s"
  "buttons (U2TXREG_write c s) = buttons s"
  "systemState (U2TXREG_write c s) = systemState s"
  "pwmCounter (U2TXREG_write c s) = pwmCounter s"
  "buttonFlag (U2TXREG_write c s) = buttonFlag s"
  "U2TX (hw (U2TXREG_write c s)) = U2TX (hw s) @ [c]"
  by (simp_all add: U2TXREG_write_def)

lemma currentState_assign_fields [simp]:
  "pwmControl (currentState_assign m s) = pwmControl s"
  "buttons (currentState_assign m s) = buttons s"
  "currentState (systemState (currentState_assign m s)) = m"
  "pwmCounter (currentState_assign m s) = pwmCounter s"
  "buttonFlag (currentState_assign m s) = buttonFlag s"
  "hw (currentState_assign m s) = hw s"
  by (simp_all add: currentState_assign_def)

lemma blink_fields [simp]:
  "pwmControl (blink s) = (pwmControl s)\<lparr>blinkEnabled := 1\<rparr>"
  "buttons (blink s) = buttons s"
  "systemState (blink s) = systemState s"
  "pwmCounter (blink s) = pwmCounter s"
  "buttonFlag (blink s) = buttonFlag s"
  "U2TX (hw (blink s)) = U2TX (hw s)"
  by (simp_all add: blink_def startTimer2_def)

lemma stopBlink_fields [simp]:
  "pwmControl (stopBlink s) = (pwmControl s)\<lparr>blinkEnabled := 0\<rparr>"
  "buttons (stopBlink s) = buttons s"
  "systemState (stopBlink s) = systemState s"
  "pwmCounter (stopBlink s) = pwmCounter s"
  "buttonFlag (stopBlink s) = buttonFlag s"
  "U2TX (hw (stopBlink s)) = U2TX (hw s)"
  by (simp_all add: stopBlink_def stopTimer2_def)

lemma updateBrightness_globals [simp]:
  "buttons (updateBrightness ov sample s) = buttons s"
  "systemState (updateBrightness ov sample s) = systemState s"
  "pwmCounter (updateBrightness ov sample s) = pwmCounter s"
  "buttonFlag (updateBrightness ov sample s) = buttonFlag s"
  "U2TX (hw (updateBrightness ov sample s)) = U2TX (hw s)"
  by (simp_all add: updateBrightness_def do_ADC_def startTimer1_def Let_def)

lemma updateBrightness_pwmControl:
  "pwmControl (updateBrightness ov sample s) =
     (let p = pwmControl s;
          b = (if ov = 0 then adc_to_duty sample (period p) else ov)
      in if blinkEnabled p = 0
         then p\<lparr>adcValue := sample, baseDutyCycle := b, currentDutyCycle := b\<rparr>
         else p\<lparr>adcValue := sample, baseDutyCycle := b, blinkDutyCycle := b,
                 currentDutyCycle := (if blinkState p \<noteq> 0 then b else 0)\<rparr>)"
  by (simp add: updateBrightness_def do_ADC_def startTimer1_def Let_def)

lemma updateBrightness_hw:
  "hw (updateBrightness ov sample s) =
     (hw s)\<lparr>PR1 := ucast (period (pwmControl s)), T1ON := True, ADON := False, SAMP := False\<rparr>"
  by (simp add: updateBrightness_def do_ADC_def startTimer1_def Let_def)

section \<open>Serial output of the telemetry\<close>

lemma XmitUART2_once: "XmitUART2 c 1 s = U2TXREG_write c s"
  by (simp add: XmitUART2.simps [of c 1] XmitUART2.simps [of c 0])

lemma DispNum_divisor_3: "DispNum_divisor 1 3 1 = 100"
  by (simp add: DispNum_divisor.simps [of 1] DispNum_divisor.simps [of 2] DispNum_divisor.simps [of 3])

lemma DispNum_divisor_4: "DispNum_divisor 1 4 1 = 1000"
  by (simp add: DispNum_divisor.simps [of 1] DispNum_divisor.simps [of 2] DispNum_divisor.simps [of 3]
      DispNum_divisor.simps [of 4])

lemma DispNum_3:
  "DispNum number 3 s =
     Inr (U2TXREG_write (DispNum_digit number 1)
           (U2TXREG_write (DispNum_digit number 10)
             (U2TXREG_write (DispNum_digit number 100) s)))"
  by (simp add: DispNum_def DispNum_divisor_3
      DispNum_digits.simps [of _ 100] DispNum_digits.simps [of _ 10] DispNum_digits.simps [of _ 1])

lemma DispNum_4:
  "DispNum number 4 s =
     Inr (U2TXREG_write (DispNum_digit number 1)
           (U2TXREG_write (DispNum_digit number 10)
             (U2TXREG_write (DispNum_digit number 100)
               (U2TXREG_write (DispNum_digit number 1000) s))))"
  by (simp add: DispNum_def DispNum_divisor_4
      DispNum_digits.simps [of _ 1000]
      DispNum_digits.simps [of _ 100] DispNum_digits.simps [of _ 10] DispNum_digits.simps [of _ 1])

lemma transmitVoltageADC_ok:
  assumes "period (pwmControl s) \<noteq> 0"
  shows "\<exists>s'. transmitVoltageADC s = Inr s' \<and>
           pwmControl s' = pwmControl s \<and> buttons s' = buttons s \<and>
           systemState s' = systemState s \<and> pwmCounter s' = pwmCounter s \<and>
           buttonFlag s' = buttonFlag s \<and>
           U2TX (hw s') = U2TX (hw s) @ transmitVoltageADC_bytes (pwmControl s)"
  using assms
  by (simp add: transmitVoltageADC_def Let_def DispNum_3 DispNum_4 XmitUART2_once transmitVoltageADC_bytes_def)

text \<open>The bytes sent are the decimal fields of the specification.\<close>

lemma upt_0_3: "[0..<3] = [0, 1, 2]"
  by (simp add: numeral_3_eq_3)

lemma upt_0_4: "[0..<4] = [0, 1, 2, 3]"
proof -
  have "[0..<4] = [0..<Suc 3]" by simp
  also have "\<dots> = [0..<3] @ [3]" by (simp only: upt_Suc) simp
  finally show ?thesis by (simp add: upt_0_3)
qed

lemma DispNum_digit_unat: "unat (DispNum_digit n d) = 48 + unat n div unat d mod 10"
proof -
  have a: "unat ((n div d) mod 10) = unat n div unat d mod 10"
    by (simp add: unat_mod unat_div)
  have lt: "unat n div unat d mod 10 < 10" by simp
  have "unat (48 :: uint16_t) + unat ((n div d) mod 10) < 2 ^ LENGTH(16)"
    using lt by (simp add: a)
  then have b: "unat (48 + (n div d) mod 10) = 48 + unat n div unat d mod 10"
    by (simp add: unat_add_lem [THEN iffD1] a)
  have "unat (ucast (48 + (n div d) mod 10) :: uint8_t) = take_bit 8 (48 + unat n div unat d mod 10)"
    by (simp add: unsigned_ucast_eq b)
  also have "\<dots> = 48 + unat n div unat d mod 10"
    using lt by (simp add: take_bit_nat_eq_self)
  finally show ?thesis by (simp add: DispNum_digit_def)
qed

lemma DispNum_digit_spec:
  "DispNum_digit n d = of_char CHR ''0'' + of_nat (unat n div unat d mod 10)"
proof -
  have lt: "unat n div unat d mod 10 < 10" by simp
  have "unat (of_nat (unat n div unat d mod 10) :: uint8_t) = unat n div unat d mod 10"
    using lt by (simp add: unat_of_nat)
  then have "unat (48 + of_nat (unat n div unat d mod 10) :: uint8_t) = 48 + unat n div unat d mod 10"
    using lt by (simp add: unat_word_ariths)
  then have "unat (DispNum_digit n d) = unat (48 + of_nat (unat n div unat d mod 10) :: uint8_t)"
    by (simp add: DispNum_digit_unat)
  then show ?thesis by (simp add: word_unat_eq_iff)
qed

lemma unat_ucast_8_16: "unat (ucast (w :: uint8_t) :: uint16_t) = unat w"
proof -
  have "unat w < 2 ^ LENGTH(8)" by (rule unsigned_less)
  then have "unat w < 2 ^ 16" by simp
  then show ?thesis by (simp add: unsigned_ucast_eq take_bit_nat_eq_self)
qed

lemma dutyPercent_exact:
  fixes cur per :: uint8_t
  assumes "cur \<le> per" "per \<noteq> 0"
  shows "unat (ucast ((ucast cur :: uint32_t) * 100 div ucast per) :: uint8_t)
           = unat cur * 100 div unat per"
proof -
  have "unat cur < 2 ^ LENGTH(8)" by (rule unsigned_less)
  then have c: "unat cur < 256" by simp
  have le: "unat cur \<le> unat per" using assms(1) by (simp add: word_le_nat_alt)
  have pos: "0 < unat per" using assms(2) by (simp add: unat_gt_0)
  have "unat (ucast cur :: uint32_t) * unat (100 :: uint32_t) < 2 ^ LENGTH(32)"
    using c by (simp add: unat_ucast_8_32)
  then have m: "unat ((ucast cur :: uint32_t) * 100) = unat cur * 100"
    by (simp add: unat_mult_lem [THEN iffD1] unat_ucast_8_32)
  have d: "unat ((ucast cur :: uint32_t) * 100 div ucast per) = unat cur * 100 div unat per"
    by (simp add: unat_div m unat_ucast_8_32)
  have "unat cur * 100 \<le> unat per * 100" using le by simp
  then have "unat cur * 100 div unat per \<le> unat per * 100 div unat per"
    by (rule div_le_mono)
  then have "unat cur * 100 div unat per \<le> 100" using pos by simp
  then show ?thesis by (simp add: unat_ucast_32_8 d)
qed

lemma transmitVoltageADC_bytes_spec:
  assumes "currentDutyCycle p \<le> period p" "period p \<noteq> 0"
  shows "transmitVoltageADC_bytes p =
     spec_telemetry_line (unat (currentDutyCycle p) * 100 div unat (period p)) (unat (adcValue p))"
  by (simp add: transmitVoltageADC_bytes_def spec_telemetry_line_def spec_dec_field_def upt_0_3 upt_0_4
      DispNum_digit_spec unat_ucast_8_16 dutyPercent_exact [OF assms] Let_def)

lemma updateBrightness_current_le:
  assumes "unat sample \<le> 1023"
  shows "currentDutyCycle (pwmControl (updateBrightness 0 sample s)) \<le> period (pwmControl s)"
  using adc_to_duty_exact(2) [OF assms, of "period (pwmControl s)"]
  by (simp add: updateBrightness_pwmControl Let_def word_le_nat_alt)

lemma updateBrightness_period [simp]:
  "period (pwmControl (updateBrightness ov sample s)) = period (pwmControl s)"
  by (simp add: updateBrightness_pwmControl Let_def)

lemma updateBrightness_adcValue [simp]:
  "adcValue (pwmControl (updateBrightness ov sample s)) = sample"
  by (simp add: updateBrightness_pwmControl Let_def)

section \<open>The period is never written\<close>

lemma IOcheck_loop_globals [simp]:
  "pwmControl (IOcheck_loop n i levels s) = pwmControl s"
  "systemState (IOcheck_loop n i levels s) = systemState s"
  "pwmCounter (IOcheck_loop n i levels s) = pwmCounter s"
  "buttonFlag (IOcheck_loop n i levels s) = buttonFlag s"
  "hw (IOcheck_loop n i levels s) = hw s"
  by (induction n arbitrary: i s; simp)+

lemma main_clear_loop_globals [simp]:
  "pwmControl (main_clear_loop n i s) = pwmControl s"
  "systemState (main_clear_loop n i s) = systemState s"
  "pwmCounter (main_clear_loop n i s) = pwmCounter s"
  "buttonFlag (main_clear_loop n i s) = buttonFlag s"
  "hw (main_clear_loop n i s) = hw s"
  by (induction n arbitrary: i s; simp)+

lemma transmitVoltageADC_Inr:
  assumes "transmitVoltageADC s = Inr s'"
  shows "pwmControl s' = pwmControl s"
proof (cases "period (pwmControl s) = 0")
  case True
  with assms show ?thesis by (simp add: transmitVoltageADC_def Let_def)
next
  case False
  from transmitVoltageADC_ok [OF False] assms show ?thesis by auto
qed

lemma handleStateTransition_period:
  assumes "handleStateTransition sample s = Inr s'"
  shows "period (pwmControl s') = period (pwmControl s)"
  using assms
  by (auto simp: handleStateTransition_def Let_def dest!: transmitVoltageADC_Inr
      split: if_splits sum.splits)

lemma T1Interrupt_period:
  assumes "T1Interrupt s = Inr s'"
  shows "period (pwmControl s') = period (pwmControl s)"
  using assms by (auto simp: T1Interrupt_def Let_def split: if_splits)

lemma T2Interrupt_period [simp]: "period (pwmControl (T2Interrupt s)) = period (pwmControl s)"
  by (simp add: T2Interrupt_def Let_def)

lemma boot_pwmControl:
  "pwmControl boot = \<lparr>period = 50, baseDutyCycle = 0, blinkDutyCycle = 0, currentDutyCycle = 0,
                     blinkEnabled = 0, blinkState = 0, adcValue = 0\<rparr>"
  by (simp add: boot_def init_def power_on_def)

lemma reachable_period: "reachable s \<Longrightarrow> period (pwmControl s) = 50"
proof (induction rule: reachable.induct)
  case r_boot
  show ?case by (simp add: boot_pwmControl)
next
  case (r_IOcheck s levels)
  then show ?case by (simp add: IOcheck_def)
next
  case (r_handle s sample s')
  then show ?case by (simp add: handleStateTransition_period)
next
  case (r_transmit s s')
  then show ?case by (simp add: transmitVoltageADC_Inr)
next
  case (r_T1 s s')
  then show ?case by (simp add: T1Interrupt_period)
next
  case (r_T3 s)
  then show ?case by (simp add: T3Interrupt_def)
next
  case (r_CN s)
  then show ?case by (simp add: CNInterrupt_def)
qed simp_all

lemma handle_mode_total:
  assumes "period (pwmControl s) \<noteq> 0"
  shows "\<exists>s'. handleStateTransition sample s = Inr s'"
proof -
  have p1: "period (pwmControl (updateBrightness 0 sample s)) \<noteq> 0"
    using assms by simp
  have p2: "period (pwmControl (updateBrightness 0 sample (blink s))) \<noteq> 0"
    using assms by simp
  from transmitVoltageADC_ok [OF p1] obtain t1 where
    t1: "transmitVoltageADC (updateBrightness 0 sample s) = Inr t1"
    by auto
  from transmitVoltageADC_ok [OF p2] obtain t2 where
    t2: "transmitVoltageADC (updateBrightness 0 sample (blink s)) = Inr t2"
    by auto
  show ?thesis
    by (simp add: handleStateTransition_def Let_def t1 t2)
qed

section \<open>The timer ticks and the boot state\<close>

lemma T1Interrupt_pwmControl:
  "period (pwmControl s) \<noteq> 0 \<Longrightarrow>
   \<exists>s'. T1Interrupt s = Inr s' \<and>
     pwmControl s' = (pwmControl s)\<lparr>currentDutyCycle :=
        (if blinkEnabled (pwmControl s) \<noteq> 0 then currentDutyCycle (pwmControl s)
         else baseDutyCycle (pwmControl s))\<rparr>"
  by (simp add: T1Interrupt_def Let_def LED_assign_def)

lemma T2Interrupt_pwmControl:
  "pwmControl (T2Interrupt s) =
     (if blinkEnabled (pwmControl s) \<noteq> 0
      then (pwmControl s)\<lparr>blinkState := (if blinkState (pwmControl s) = 0 then 1 else 0),
              currentDutyCycle := (if blinkState (pwmControl s) = 0 then blinkDutyCycle (pwmControl s) else 0)\<rparr>
      else pwmControl s)"
  by (simp add: T2Interrupt_def Let_def)

section \<open>The PWM invariant under the single operations\<close>








section \<open>Edge detection of one button\<close>

lemma IOcheck_buttons:
  assumes "i < 3"
  shows "buttons (snd (IOcheck levels s)) i = IOcheck_button (levels i) (buttons s i)"
proof -
  from assms have "i = 0 \<or> i = 1 \<or> i = 2" by auto
  then show ?thesis
    by (auto simp: IOcheck_def numeral_3_eq_3)
qed

lemma IOcheck_button_same:
  "prevState b = (if level then 1 else 0) \<Longrightarrow>
   pressed (IOcheck_button level b) = pressed b \<and>
   prevState (IOcheck_button level b) = prevState b"
  by (simp add: IOcheck_button_def Let_def)

lemma IOcheck_button_press:
  "prevState b = 1 \<Longrightarrow>
   pressed (IOcheck_button False b) = pressed b \<and> prevState (IOcheck_button False b) = 0"
  by (simp add: IOcheck_button_def Let_def)

lemma IOcheck_button_release:
  "prevState b = 0 \<Longrightarrow>
   pressed (IOcheck_button True b) = 1 \<and> prevState (IOcheck_button True b) = 1"
  by (simp add: IOcheck_button_def Let_def)

lemma boot_buttons: "buttons boot = (\<lambda>i. \<lparr>pressed = 0, newState = 1, prevState = 1\<rparr>)"
  by (simp add: boot_def init_def power_on_def)

lemma main_iteration_before_handle:
  "pwmControl (if buttonFlag s \<noteq> 0
               then let (r, s') = IOcheck levels s in s'\<lparr>buttonFlag := r\<rparr> else s) = pwmControl s"
  "systemState (if buttonFlag s \<noteq> 0
               then let (r, s') = IOcheck levels s in s'\<lparr>buttonFlag := r\<rparr> else s) = systemState s"
  "hw (if buttonFlag s \<noteq> 0
               then let (r, s') = IOcheck levels s in s'\<lparr>buttonFlag := r\<rparr> else s) = hw s"
  by (simp_all add: IOcheck_def)

lemma handle_transmit_line:
  assumes mode: "currentState (systemState s) = TRANSMIT_UART_ON \<or>
                 currentState (systemState s) = TRANSMIT_UART_BLINK"
    and per: "period (pwmControl s) \<noteq> 0"
    and range: "unat sample \<le> 1023"
  shows "\<exists>s'. handleStateTransition sample s = Inr s' \<and>
           adcValue (pwmControl s') = sample \<and>
           U2TX (hw s') = U2TX (hw s) @
             spec_telemetry_line
               (unat (currentDutyCycle (pwmControl s')) * 100 div unat (period (pwmControl s')))
               (unat (adcValue (pwmControl s')))"
  using mode
proof
  assume m: "currentState (systemState s) = TRANSMIT_UART_ON"
  let ?u = "updateBrightness 0 sample s"
  have p: "period (pwmControl ?u) \<noteq> 0" using per by simp
  have c: "currentDutyCycle (pwmControl ?u) \<le> period (pwmControl ?u)"
    using updateBrightness_current_le [OF range, of s] by simp
  from transmitVoltageADC_ok [OF p] obtain t where
    t: "transmitVoltageADC ?u = Inr t" "pwmControl t = pwmControl ?u"
       "U2TX (hw t) = U2TX (hw ?u) @ transmitVoltageADC_bytes (pwmControl ?u)"
    by auto
  show ?thesis
    using m by (simp add: handleStateTransition_def t transmitVoltageADC_bytes_spec [OF c p])
next
  assume m: "currentState (systemState s) = TRANSMIT_UART_BLINK"
  let ?u = "updateBrightness 0 sample (blink s)"
  have p: "period (pwmControl ?u) \<noteq> 0" using per by simp
  have c: "currentDutyCycle (pwmControl ?u) \<le> period (pwmControl ?u)"
    using updateBrightness_current_le [OF range, of "blink s"] by simp
  from transmitVoltageADC_ok [OF p] obtain t where
    t: "transmitVoltageADC ?u = Inr t" "pwmControl t = pwmControl ?u"
       "U2TX (hw t) = U2TX (hw ?u) @ transmitVoltageADC_bytes (pwmControl ?u)"
    by auto
  show ?thesis
    using m by (simp add: handleStateTransition_def t transmitVoltageADC_bytes_spec [OF c p])
qed

lemma handle_transmit_on_duty:
  assumes "currentState (systemState s) = TRANSMIT_UART_ON"
    and "handleStateTransition sample s = Inr s'"
  shows "currentDutyCycle (pwmControl s') =
           currentDutyCycle (pwmControl (updateBrightness 0 sample s))"
    and "period (pwmControl s') = period (pwmControl s)"
  using assms
  by (auto simp: handleStateTransition_def dest!: transmitVoltageADC_Inr
      split: sum.splits if_splits)

lemma telemetry_line_050_0512:
  "spec_telemetry_line 50 512 = map of_char ''050 0512\<newline>''"
  by (simp add: spec_telemetry_line_def spec_dec_field_def upt_0_3 upt_0_4)

section \<open>The claims\<close>

text \<open>
  Claim C1. For every mode value and every combination of the three one-shot flags, one
  call of \<^const>\<open>handleStateTransition\<close> (one pass of the control loop) ends in exactly
  the mode the table of section 4.5 gives, with priority PB1, PB2, PB3: at most one
  transition, the mode unchanged when no flag is set, and \<open>OFF_MODE\<close> for a mode value
  outside the six enumerators. The period is not zero, as the data model requires (with
  period zero the telemetry of the two transmit modes divides by zero).
\<close>

theorem C1_next_mode_follows_table:
  assumes "period (pwmControl s) \<noteq> 0"
  shows "\<exists>s'. handleStateTransition sample s = Inr s' \<and>
     currentState (systemState s') =
       spec_next_mode (currentState (systemState s))
         (pressed (buttons s 0) \<noteq> 0) (pressed (buttons s 1) \<noteq> 0)
         (pressed (buttons s 2) \<noteq> 0)"
proof -
  have p1: "period (pwmControl (updateBrightness 0 sample s)) \<noteq> 0"
    using assms by simp
  have p2: "period (pwmControl (updateBrightness 0 sample (blink s))) \<noteq> 0"
    using assms by simp
  from transmitVoltageADC_ok [OF p1] obtain t1 where
    t1: "transmitVoltageADC (updateBrightness 0 sample s) = Inr t1"
      "buttons t1 = buttons s" "systemState t1 = systemState s"
    by auto
  from transmitVoltageADC_ok [OF p2] obtain t2 where
    t2: "transmitVoltageADC (updateBrightness 0 sample (blink s)) = Inr t2"
      "buttons t2 = buttons s" "systemState t2 = systemState s"
    by auto
  show ?thesis
    by (simp add: handleStateTransition_def spec_next_mode_def Let_def t1 t2)
qed

text \<open>
  Witness for C1: in \<open>ON_MODE\<close> with all three flags set, PB1 wins and the pass ends in
  \<open>OFF_MODE\<close>.
\<close>

theorem C1_next_mode_follows_table_witness:
  "period (pwmControl
      (currentState_assign ON_MODE
        (boot\<lparr>buttons := (\<lambda>i. \<lparr>pressed = 1, newState = 1, prevState = 1\<rparr>)\<rparr>))) \<noteq> 0 \<and>
   (\<exists>s'. handleStateTransition 512
           (currentState_assign ON_MODE
             (boot\<lparr>buttons := (\<lambda>i. \<lparr>pressed = 1, newState = 1, prevState = 1\<rparr>)\<rparr>)) = Inr s' \<and>
         currentState (systemState s') = OFF_MODE)"
  using C1_next_mode_follows_table
    [of "currentState_assign ON_MODE
          (boot\<lparr>buttons := (\<lambda>i. \<lparr>pressed = 1, newState = 1, prevState = 1\<rparr>)\<rparr>)" 512]
  by (simp add: boot_pwmControl spec_next_mode_def)




text \<open>
  Claim C3. Every call of \<^const>\<open>updateBrightness\<close> stores the fresh sample in
  \<open>adcValue\<close> (the specification's \<open>lastSample\<close>). The override is a byte in which \<open>0\<close>
  stands for "absent": with override \<open>0\<close> the new \<open>baseDutyCycle\<close> is
  \<open>floor (lastSample * period / 1023)\<close>, with any other override it is the override.
  Afterwards \<open>blinkDutyCycle = baseDutyCycle\<close> if blink is enabled, and
  \<open>currentDutyCycle = baseDutyCycle\<close> otherwise. The sample is in \<open>[0, 1023]\<close>, the range
  of the analog input.
\<close>

theorem C3_updateBrightness_effect:
  assumes "unat sample \<le> 1023"
  shows "adcValue (pwmControl (updateBrightness ov sample s)) = sample \<and>
     (if ov = 0
      then unat (baseDutyCycle (pwmControl (updateBrightness ov sample s)))
             = unat (adcValue (pwmControl (updateBrightness ov sample s)))
                 * unat (period (pwmControl s)) div 1023
      else baseDutyCycle (pwmControl (updateBrightness ov sample s)) = ov) \<and>
     (if blinkEnabled (pwmControl s) \<noteq> 0
      then blinkDutyCycle (pwmControl (updateBrightness ov sample s))
             = baseDutyCycle (pwmControl (updateBrightness ov sample s))
      else currentDutyCycle (pwmControl (updateBrightness ov sample s))
             = baseDutyCycle (pwmControl (updateBrightness ov sample s))) \<and>
     period (pwmControl (updateBrightness ov sample s)) = period (pwmControl s) \<and>
     blinkEnabled (pwmControl (updateBrightness ov sample s)) = blinkEnabled (pwmControl s)"
  using adc_to_duty_exact(1) [OF assms, of "period (pwmControl s)"]
  by (simp add: updateBrightness_pwmControl Let_def)

text \<open>
  Witness for C3: without override in the boot state (blink disabled), and with override
  50 after \<^const>\<open>blink\<close> (blink enabled).
\<close>

theorem C3_updateBrightness_effect_witness:
  "unat (512 :: uint16_t) \<le> 1023 \<and>
   adcValue (pwmControl (updateBrightness 0 512 boot)) = 512 \<and>
   unat (baseDutyCycle (pwmControl (updateBrightness 0 512 boot))) = 25 \<and>
   currentDutyCycle (pwmControl (updateBrightness 0 512 boot))
     = baseDutyCycle (pwmControl (updateBrightness 0 512 boot)) \<and>
   baseDutyCycle (pwmControl (updateBrightness 50 512 (blink boot))) = 50 \<and>
   blinkDutyCycle (pwmControl (updateBrightness 50 512 (blink boot))) = 50"
  using C3_updateBrightness_effect [of 512 0 boot]
    C3_updateBrightness_effect [of 512 50 "blink boot"]
  by (simp add: boot_pwmControl)

text \<open>
  Claim C4. For every analog sample in \<open>[0, 1023]\<close> and every period (in particular every
  period \<open>> 0\<close>) the scaling expression of \<^const>\<open>updateBrightness\<close> computes
  \<open>floor (sample * period / 1023)\<close> without overflow or truncation, and this value lies
  between \<open>0\<close> and the period; sample \<open>512\<close> with period \<open>50\<close> gives \<open>25\<close>.
\<close>

theorem C4_duty_within_period:
  "unat sample \<le> 1023 \<Longrightarrow>
     unat (adc_to_duty sample per) = unat sample * unat per div 1023 \<and>
     0 \<le> unat (adc_to_duty sample per) \<and>
     unat (adc_to_duty sample per) \<le> unat per \<and>
     adc_to_duty 512 50 = 25"
proof -
  assume range: "unat sample \<le> 1023"
  have "adc_to_duty 512 50 = 25"
    by (simp add: adc_to_duty_def)
  with adc_to_duty_exact [OF range, of per] show ?thesis
    by simp
qed

text \<open>Witness for C4: the full-scale sample 1023 with period 50 gives 50.\<close>

theorem C4_duty_within_period_witness:
  "unat (1023 :: uint16_t) \<le> 1023 \<and> unat (adc_to_duty 1023 50) = 50 \<and>
   unat (adc_to_duty 1023 50) \<le> unat (50 :: uint8_t)"
  using C4_duty_within_period [of 1023 50] by simp

text \<open>
  Claim C5, as stated, fails on where the event occurs. From the boot state the levels
  released, released, pressed, released are fed to all buttons in four calls of
  \<^const>\<open>IOcheck\<close>. After the second call, the second released sample, the flag of
  button 1 is still clear, and so it is after the third; the fourth call sets it.
\<close>

theorem C5_no_event_at_second_sample:
  "pressed (buttons (snd (IOcheck (\<lambda>i. True) (snd (IOcheck (\<lambda>i. True) boot)))) 0) = 0 \<and>
   pressed (buttons (snd (IOcheck (\<lambda>i. False)
      (snd (IOcheck (\<lambda>i. True) (snd (IOcheck (\<lambda>i. True) boot)))))) 0) = 0 \<and>
   pressed (buttons (snd (IOcheck (\<lambda>i. True) (snd (IOcheck (\<lambda>i. False)
      (snd (IOcheck (\<lambda>i. True) (snd (IOcheck (\<lambda>i. True) boot)))))))) 0) = 1"
  by (simp add: IOcheck_buttons boot_buttons IOcheck_button_def)

text \<open>
  Claim C5, amended. Starting from a button whose previous level is released and whose
  flag is clear (the boot state of each button), four successive calls of
  \<^const>\<open>IOcheck\<close> that read released, released, pressed, released for this button set
  its flag exactly once, and the event occurs at the fourth call, the released sample that
  follows the pressed one: the flag is clear after each of the first three calls and set
  after the fourth. The levels of the other two buttons are arbitrary.
\<close>

theorem C5_event_at_release_after_press:
  assumes i: "i < 3"
    and start: "prevState (buttons s i) = 1" "pressed (buttons s i) = 0"
    and levels: "l1 i" "l2 i" "\<not> l3 i" "l4 i"
  shows "pressed (buttons (snd (IOcheck l1 s)) i) = 0 \<and>
         pressed (buttons (snd (IOcheck l2 (snd (IOcheck l1 s)))) i) = 0 \<and>
         pressed (buttons (snd (IOcheck l3 (snd (IOcheck l2 (snd (IOcheck l1 s)))))) i) = 0 \<and>
         pressed (buttons (snd (IOcheck l4 (snd (IOcheck l3 (snd (IOcheck l2
            (snd (IOcheck l1 s)))))))) i) = 1"
proof -
  let ?s1 = "snd (IOcheck l1 s)"
  let ?s2 = "snd (IOcheck l2 ?s1)"
  let ?s3 = "snd (IOcheck l3 ?s2)"
  let ?s4 = "snd (IOcheck l4 ?s3)"
  have b1: "pressed (buttons ?s1 i) = 0 \<and> prevState (buttons ?s1 i) = 1"
    using IOcheck_button_same [of "buttons s i" True] start levels(1)
    by (simp add: IOcheck_buttons [OF i])
  have b2: "pressed (buttons ?s2 i) = 0 \<and> prevState (buttons ?s2 i) = 1"
    using IOcheck_button_same [of "buttons ?s1 i" True] b1 levels(2)
    by (simp add: IOcheck_buttons [OF i])
  have b3: "pressed (buttons ?s3 i) = 0 \<and> prevState (buttons ?s3 i) = 0"
    using IOcheck_button_press [of "buttons ?s2 i"] b2 levels(3)
    by (simp add: IOcheck_buttons [OF i])
  have b4: "pressed (buttons ?s4 i) = 1"
    using IOcheck_button_release [of "buttons ?s3 i"] b3 levels(4)
    by (simp add: IOcheck_buttons [OF i])
  from b1 b2 b3 b4 show ?thesis by simp
qed

text \<open>
  Witness for C5: button 2 (index 1) from the boot state, the other two buttons released
  throughout.
\<close>

theorem C5_event_at_release_after_press_witness:
  "(1 :: nat) < 3 \<and> prevState (buttons boot 1) = 1 \<and> pressed (buttons boot 1) = 0 \<and>
   pressed (buttons (snd (IOcheck (\<lambda>i. True) (snd (IOcheck (\<lambda>i. i \<noteq> 1)
      (snd (IOcheck (\<lambda>i. True) (snd (IOcheck (\<lambda>i. True) boot)))))))) 1) = 1"
  using C5_event_at_release_after_press
    [of 1 boot "\<lambda>i. True" "\<lambda>i. True" "\<lambda>i. i \<noteq> 1" "\<lambda>i. True"]
  by (simp add: boot_buttons)

text \<open>
  Claim C6. From every state with blink enabled, whatever \<open>blinkDutyCycle\<close>,
  \<open>blinkState\<close>, \<open>currentDutyCycle\<close> and the PWM counter are, \<^const>\<open>stopBlink\<close>
  followed by one PWM tick (\<^const>\<open>T1Interrupt\<close>) leaves
  \<open>currentDutyCycle = baseDutyCycle\<close>, with \<open>baseDutyCycle\<close> unchanged. The period is not
  zero, so that the tick's remainder is defined.
\<close>

theorem C6_stopBlink_then_tick_restores:
  assumes "blinkEnabled (pwmControl s) \<noteq> 0" "period (pwmControl s) \<noteq> 0"
  shows "\<exists>s'. T1Interrupt (stopBlink s) = Inr s' \<and>
           currentDutyCycle (pwmControl s') = baseDutyCycle (pwmControl s') \<and>
           baseDutyCycle (pwmControl s') = baseDutyCycle (pwmControl s)"
proof -
  have "period (pwmControl (stopBlink s)) \<noteq> 0" using assms(2) by simp
  from T1Interrupt_pwmControl [OF this] show ?thesis by auto
qed

text \<open>
  Witness for C6: blinking in the dark phase (\<open>currentDutyCycle = 0\<close>) with
  \<open>baseDutyCycle = 25\<close>; after \<^const>\<open>stopBlink\<close> and one tick the duty cycle is 25.
\<close>

theorem C6_stopBlink_then_tick_restores_witness:
  "blinkEnabled (pwmControl (updateBrightness 0 512 (blink boot))) \<noteq> 0 \<and>
   period (pwmControl (updateBrightness 0 512 (blink boot))) \<noteq> 0 \<and>
   currentDutyCycle (pwmControl (updateBrightness 0 512 (blink boot))) = 0 \<and>
   (\<exists>s'. T1Interrupt (stopBlink (updateBrightness 0 512 (blink boot))) = Inr s' \<and>
         currentDutyCycle (pwmControl s') = 25)"
proof -
  have p: "pwmControl (updateBrightness 0 512 (blink boot)) =
      \<lparr>period = 50, baseDutyCycle = 25, blinkDutyCycle = 25, currentDutyCycle = 0,
       blinkEnabled = 1, blinkState = 0, adcValue = 512\<rparr>"
    by (simp add: updateBrightness_pwmControl boot_pwmControl adc_to_duty_def)
  from C6_stopBlink_then_tick_restores [of "updateBrightness 0 512 (blink boot)"] p
  show ?thesis by auto
qed

text \<open>
  Claim C7. A pass of the control loop that starts in mode \<open>TRANSMIT_UART_ON\<close> or
  \<open>TRANSMIT_UART_BLINK\<close> appends exactly one telemetry line to the serial output: the duty
  percentage \<open>currentDutyCycle * 100 div period\<close> as three decimal digits, one space,
  \<open>adcValue\<close> (the fresh sample) as four decimal digits, and a newline, nothing else. The
  values are those at the time of the transmission, after the brightness update of the
  same pass. This holds of \<^const>\<open>handleStateTransition\<close> and of a whole iteration of the
  main loop. The period is not zero and the sample is in \<open>[0, 1023]\<close>.
\<close>

theorem C7_one_telemetry_line_per_pass:
  assumes mode: "currentState (systemState s) = TRANSMIT_UART_ON \<or>
                 currentState (systemState s) = TRANSMIT_UART_BLINK"
    and per: "period (pwmControl s) \<noteq> 0"
    and range: "unat sample \<le> 1023"
  shows "(\<exists>s'. handleStateTransition sample s = Inr s' \<and>
           adcValue (pwmControl s') = sample \<and>
           U2TX (hw s') = U2TX (hw s) @
             spec_telemetry_line
               (unat (currentDutyCycle (pwmControl s')) * 100 div unat (period (pwmControl s')))
               (unat (adcValue (pwmControl s')))) \<and>
         (\<exists>s'. main_iteration levels sample s = Inr s' \<and>
           adcValue (pwmControl s') = sample \<and>
           U2TX (hw s') = U2TX (hw s) @
             spec_telemetry_line
               (unat (currentDutyCycle (pwmControl s')) * 100 div unat (period (pwmControl s')))
               (unat (adcValue (pwmControl s'))))"
proof
  show "\<exists>s'. handleStateTransition sample s = Inr s' \<and>
           adcValue (pwmControl s') = sample \<and>
           U2TX (hw s') = U2TX (hw s) @
             spec_telemetry_line
               (unat (currentDutyCycle (pwmControl s')) * 100 div unat (period (pwmControl s')))
               (unat (adcValue (pwmControl s')))"
    using mode per range by (rule handle_transmit_line)
next
  let ?s1 = "if buttonFlag s \<noteq> 0
             then let (r, s') = IOcheck levels s in s'\<lparr>buttonFlag := r\<rparr> else s"
  have m1: "currentState (systemState ?s1) = TRANSMIT_UART_ON \<or>
            currentState (systemState ?s1) = TRANSMIT_UART_BLINK"
    using mode by (simp only: main_iteration_before_handle)
  have p1: "period (pwmControl ?s1) \<noteq> 0"
    unfolding main_iteration_before_handle by (rule per)
  from handle_transmit_line [OF m1 p1 range] obtain s2 where
    s2: "handleStateTransition sample ?s1 = Inr s2" "adcValue (pwmControl s2) = sample"
      "U2TX (hw s2) = U2TX (hw ?s1) @
         spec_telemetry_line
           (unat (currentDutyCycle (pwmControl s2)) * 100 div unat (period (pwmControl s2)))
           (unat (adcValue (pwmControl s2)))"
    by blast
  have "main_iteration levels sample s = Inr (main_clear_loop 3 0 s2)"
    using s2(1) by (simp add: main_iteration_def Let_def)
  moreover have "U2TX (hw ?s1) = U2TX (hw s)"
    by (simp only: main_iteration_before_handle)
  ultimately show "\<exists>s'. main_iteration levels sample s = Inr s' \<and>
           adcValue (pwmControl s') = sample \<and>
           U2TX (hw s') = U2TX (hw s) @
             spec_telemetry_line
               (unat (currentDutyCycle (pwmControl s')) * 100 div unat (period (pwmControl s')))
               (unat (adcValue (pwmControl s')))"
    using s2(2,3) by simp
qed

text \<open>
  Witness for C7: mode \<open>TRANSMIT_UART_ON\<close> from the boot state with sample 512. The duty
  cycle becomes 25 of 50, and the line sent is \<open>050 0512\<close> followed by a newline.
\<close>

theorem C7_one_telemetry_line_per_pass_witness:
  "\<exists>s'. handleStateTransition 512 (currentState_assign TRANSMIT_UART_ON boot) = Inr s' \<and>
        U2TX (hw s') = U2TX (hw boot) @ map of_char ''050 0512\<newline>''"
proof -
  let ?w = "currentState_assign TRANSMIT_UART_ON boot"
  have m: "currentState (systemState ?w) = TRANSMIT_UART_ON" by simp
  have p: "period (pwmControl ?w) \<noteq> 0" by (simp add: boot_pwmControl)
  have r: "unat (512 :: uint16_t) \<le> 1023" by simp
  from C7_one_telemetry_line_per_pass [of ?w 512, OF _ p r] m obtain s' where
    s': "handleStateTransition 512 ?w = Inr s'" "adcValue (pwmControl s') = 512"
      "U2TX (hw s') = U2TX (hw ?w) @
         spec_telemetry_line
           (unat (currentDutyCycle (pwmControl s')) * 100 div unat (period (pwmControl s')))
           (unat (adcValue (pwmControl s')))"
    by blast
  have d: "currentDutyCycle (pwmControl s') = 25" "period (pwmControl s') = 50"
    using handle_transmit_on_duty [OF m s'(1)]
    by (simp_all add: updateBrightness_pwmControl boot_pwmControl adc_to_duty_def)
  from s' d show ?thesis
    by (simp add: telemetry_line_050_0512)
qed

text \<open>
  Claim C8, as stated, fails: \<^const>\<open>updateBrightness\<close> begins with
  \<^verbatim>\<open>startTimer1(pwmControl.period)\<close>. With Timer1 stopped, as
  \<^const>\<open>stopTimer1\<close> leaves it in every pass in mode Off, the call changes the
  registers: afterwards Timer1 runs, with period register 50.
\<close>

theorem C8_updateBrightness_starts_timer1:
  "hw (updateBrightness 0 512 (stopTimer1 boot)) \<noteq> hw (stopTimer1 boot) \<and>
   \<not> T1ON (hw (stopTimer1 boot)) \<and>
   T1ON (hw (updateBrightness 0 512 (stopTimer1 boot))) \<and>
   PR1 (hw (updateBrightness 0 512 (stopTimer1 boot))) = 50"
proof -
  have a: "\<not> T1ON (hw (stopTimer1 boot))"
    by (simp add: stopTimer1_def)
  have b: "T1ON (hw (updateBrightness 0 512 (stopTimer1 boot)))"
    by (simp add: updateBrightness_hw)
  have d: "PR1 (hw (updateBrightness 0 512 (stopTimer1 boot))) = 50"
    by (simp add: updateBrightness_hw boot_pwmControl)
  from a b have "hw (updateBrightness 0 512 (stopTimer1 boot)) \<noteq> hw (stopTimer1 boot)"
    by metis
  with a b d show ?thesis by simp
qed

text \<open>
  Claim C8, amended. A call of \<^const>\<open>updateBrightness\<close> returns nothing and modifies
  only the \<open>PwmState\<close> record and, outside it, Timer1, which it starts (period register
  := period, run bit := on), and the converter's control bits, which it leaves off after
  the conversion. The buttons, the mode, the PWM counter, the button flag, the LED,
  Timer2, Timer3, the interrupt flags and the serial output are unchanged.
\<close>

theorem C8_updateBrightness_frame:
  "hw (updateBrightness ov sample s) =
     (hw s)\<lparr>PR1 := ucast (period (pwmControl s)), T1ON := True,
             ADON := False, SAMP := False\<rparr> \<and>
   buttons (updateBrightness ov sample s) = buttons s \<and>
   systemState (updateBrightness ov sample s) = systemState s \<and>
   pwmCounter (updateBrightness ov sample s) = pwmCounter s \<and>
   buttonFlag (updateBrightness ov sample s) = buttonFlag s"
proof -
  have registers: "hw (updateBrightness ov sample s) =
     (hw s)\<lparr>PR1 := ucast (period (pwmControl s)), T1ON := True,
             ADON := False, SAMP := False\<rparr>"
    by (rule updateBrightness_hw)
  have globals: "buttons (updateBrightness ov sample s) = buttons s"
    "systemState (updateBrightness ov sample s) = systemState s"
    "pwmCounter (updateBrightness ov sample s) = pwmCounter s"
    "buttonFlag (updateBrightness ov sample s) = buttonFlag s"
    by (rule updateBrightness_globals)+
  from registers globals show ?thesis
    by (intro conjI)
qed

text \<open>
  Claim C9. In every reachable state the period is the constant 50 of the initialiser of
  \<^verbatim>\<open>pwmControl\<close>: no operation writes it. So it is positive wherever the code divides
  by it: the counter wrap of the PWM tick (\<^const>\<open>T1Interrupt\<close>) and the duty percentage
  of \<^const>\<open>transmitVoltageADC\<close> (also inside \<^const>\<open>handleStateTransition\<close>) never
  divide by zero.
\<close>

theorem C9_period_positive_when_reachable:
  assumes "reachable s"
  shows "period (pwmControl s) = 50 \<and> 0 < unat (period (pwmControl s)) \<and>
         (\<exists>s'. T1Interrupt s = Inr s') \<and> (\<exists>s'. transmitVoltageADC s = Inr s') \<and>
         (\<forall>sample. \<exists>s'. handleStateTransition sample s = Inr s')"
proof -
  have p: "period (pwmControl s) = 50" using assms by (rule reachable_period)
  then have nz: "period (pwmControl s) \<noteq> 0" by simp
  have t1: "\<exists>s'. T1Interrupt s = Inr s'" using nz by (simp add: T1Interrupt_def Let_def)
  have tr: "\<exists>s'. transmitVoltageADC s = Inr s'" using transmitVoltageADC_ok [OF nz] by blast
  have h: "\<forall>sample. \<exists>s'. handleStateTransition sample s = Inr s'"
    using handle_mode_total [OF nz] by blast
  show ?thesis using p t1 tr h by simp
qed

text \<open>
  Witness for C9: the state after boot and one brightness update is reachable; the period
  is 50 there and the PWM tick returns.
\<close>

theorem C9_period_positive_when_reachable_witness:
  "reachable (updateBrightness 0 512 boot) \<and>
   period (pwmControl (updateBrightness 0 512 boot)) = 50 \<and>
   (\<exists>s'. T1Interrupt (updateBrightness 0 512 boot) = Inr s')"
proof -
  have r: "reachable (updateBrightness 0 512 boot)"
    by (rule r_update) (rule r_boot)
  from C9_period_positive_when_reachable [OF r] r show ?thesis by simp
qed

text \<open>
  Claim C10. \<^const>\<open>stopBlink\<close> changes, within \<open>PwmState\<close>, only \<open>blinkEnabled\<close>;
  outside it only Timer2, which it stops. So \<open>currentDutyCycle\<close> keeps the value of the
  last blink phase until the next PWM tick or brightness update, and \<open>blinkState\<close> is
  kept: a following \<^const>\<open>blink\<close> gives back the state before \<^const>\<open>stopBlink\<close> with
  the flag set, and the next blink tick toggles the retained phase.
\<close>

theorem C10_stopBlink_writes_only_flag:
  "pwmControl (stopBlink s) = (pwmControl s)\<lparr>blinkEnabled := 0\<rparr> \<and>
   hw (stopBlink s) = (hw s)\<lparr>TMR2 := 0, PR2 := 0, T2ON := False\<rparr> \<and>
   buttons (stopBlink s) = buttons s \<and> systemState (stopBlink s) = systemState s \<and>
   pwmCounter (stopBlink s) = pwmCounter s \<and> buttonFlag (stopBlink s) = buttonFlag s \<and>
   currentDutyCycle (pwmControl (stopBlink s)) = currentDutyCycle (pwmControl s) \<and>
   pwmControl (blink (stopBlink s)) = (pwmControl s)\<lparr>blinkEnabled := 1\<rparr> \<and>
   blinkState (pwmControl (blink (stopBlink s))) = blinkState (pwmControl s) \<and>
   blinkState (pwmControl (T2Interrupt (blink (stopBlink s)))) =
     (if blinkState (pwmControl s) = 0 then 1 else 0)"
proof -
  have pwm: "pwmControl (stopBlink s) = (pwmControl s)\<lparr>blinkEnabled := 0\<rparr>"
    by simp
  have regs: "hw (stopBlink s) = (hw s)\<lparr>TMR2 := 0, PR2 := 0, T2ON := False\<rparr>"
    by (simp add: stopBlink_def stopTimer2_def)
  have again: "pwmControl (blink (stopBlink s)) = (pwmControl s)\<lparr>blinkEnabled := 1\<rparr>"
    by simp
  have tick: "blinkState (pwmControl (T2Interrupt (blink (stopBlink s)))) =
      (if blinkState (pwmControl s) = 0 then 1 else 0)"
    by (simp add: T2Interrupt_pwmControl)
  from pwm regs again tick show ?thesis
    by simp
qed

end
